theory Spec2Isabelle
  imports Complex_Main
begin

section \<open>Data model\<close>

text \<open>
  The scorer and the calibrator of the legacy reimbursement replica, embedded over the
  real numbers: a Python float is a \<open>real\<close>, the trip duration is an \<open>int\<close> (the command
  line parses it with \<open>int\<close>), and every exception the code can raise is a value of
  \<open>error\<close>. Binary floating-point rounding is not part of this model.
\<close>

datatype error = ZeroDivisionError | ValueError | TypeError | IndexError | StatisticsError

text \<open>\<open>class ModelConfig\<close>: the lists are Python lists, read by position.\<close>

record model_config =
  base_per_diem :: real
  mileage_rates :: "real list"
  receipt_rates :: "real list"
  cluster_multipliers :: "real list"
  vacation_bonus_multiplier :: real
  vacation_base_multiplier :: real
  five_day_multiplier :: real
  receipt_threshold_multiplier :: real
  efficiency_threshold_multiplier :: real
  miles_threshold_multiplier :: real
  interaction_coeff :: real
  log_bonus_coeff :: real
  bug_base_bonus :: real
  bug_multiplier :: real

text \<open>\<open>ModelConfig.__init__\<close> of \<open>calculate_reimbursement.py\<close>.\<close>

definition ModelConfig :: model_config where
  "ModelConfig = \<lparr>
     base_per_diem = 45.51959,
     mileage_rates = [0.78707, 0.45114, 0.20083],
     receipt_rates = [0.39998, 0.30454, 0.43686, 0.12188],
     cluster_multipliers = [1.14757, 1.11176, 1.20275, 1.19116, 1.07688, 1.21401],
     vacation_bonus_multiplier = 1.04678,
     vacation_base_multiplier = 1.07235,
     five_day_multiplier = 1.08250,
     receipt_threshold_multiplier = 1.19667,
     efficiency_threshold_multiplier = 1.01898,
     miles_threshold_multiplier = 1.02133,
     interaction_coeff = 0.00055520,
     log_bonus_coeff = 5.12776,
     bug_base_bonus = 20.69937,
     bug_multiplier = 0.00617 \<rparr>"

text \<open>\<open>ModelConfig.__init__\<close> of \<open>calculate_reimbursement_optimized.py\<close>.\<close>

definition ModelConfig_optimized :: model_config where
  "ModelConfig_optimized = \<lparr>
     base_per_diem = 45.5195880490612,
     mileage_rates = [0.787071175593883, 0.45114227601327, 0.200831651920261],
     receipt_rates = [0.399975746217208, 0.3045420665708, 0.436856841815577,
                      0.121882355942393],
     cluster_multipliers = [1.14756663634639, 1.11176444876928, 1.20275399349877,
                            1.19116480573546, 1.07688362098627, 1.2140054738624],
     vacation_bonus_multiplier = 1.04678047616035,
     vacation_base_multiplier = 1.07234985943884,
     five_day_multiplier = 1.08250167328268,
     receipt_threshold_multiplier = 1.19666525936238,
     efficiency_threshold_multiplier = 1.01898035206799,
     miles_threshold_multiplier = 1.02133465968143,
     interaction_coeff = 0.000555204802994334,
     log_bonus_coeff = 5.12776389976777,
     bug_base_bonus = 20.6993690179661,
     bug_multiplier = 0.00616844543255866 \<rparr>"

text \<open>
  \<open>class LegacyReimbursementSystem\<close> of the base file. Of its fields only \<open>is_trained\<close>
  and \<open>config\<close> are ever read on a path that returns; \<open>kmeans_model\<close>, \<open>cluster_models\<close>
  and \<open>feature_scaler\<close> stay \<open>None\<close>/empty. The optimized file keeps \<open>config\<close> alone, so
  its functions take the configuration directly.
\<close>

record system =
  is_trained :: bool
  config :: model_config

definition LegacyReimbursementSystem :: system where
  "LegacyReimbursementSystem = \<lparr> is_trained = False, config = ModelConfig \<rparr>"

section \<open>Python arithmetic\<close>

text \<open>\<open>x % y\<close> on floats takes the sign of the divisor: \<open>x - y * floor (x / y)\<close>.\<close>

definition py_mod :: "real \<Rightarrow> real \<Rightarrow> real" where
  "py_mod x y = x - y * of_int \<lfloor>x / y\<rfloor>"

text \<open>\<open>round(x)\<close>: the nearest integer, a tie going to the even neighbour.\<close>

definition py_round :: "real \<Rightarrow> int" where
  "py_round x =
     (let f = \<lfloor>x\<rfloor>; r = x - of_int f
      in if r < 1 / 2 then f
         else if 1 / 2 < r then f + 1
         else if even f then f else f + 1)"

text \<open>\<open>round(x, 2)\<close>: the nearest multiple of one hundredth, ties as above.\<close>

definition py_round2 :: "real \<Rightarrow> real" where
  "py_round2 x = of_int (py_round (x * 100)) / 100"

section \<open>Feature derivation\<close>

text \<open>
  \<open>engineer_features\<close> of the base file. The result is the Python value \<open>[features]\<close>,
  a list holding one list of 37 numbers, which every later stage reads as
  \<open>features[0][k]\<close>. The division by the duration raises first; the three logarithms
  raise a math domain error (a \<open>ValueError\<close>) on a non-positive argument.
\<close>

definition engineer_features :: "int \<Rightarrow> real \<Rightarrow> real \<Rightarrow> error + real list list" where
  "engineer_features trip_duration_days miles_traveled total_receipts_amount =
    (if trip_duration_days = 0 then Inl ZeroDivisionError
     else
      let d = real_of_int trip_duration_days;
          receipts_per_day = total_receipts_amount / d;
          receipts_per_mile =
            (if miles_traveled > 0 then total_receipts_amount / miles_traveled else 0);
          miles_per_day = miles_traveled / d;
          efficiency_category =
            (if miles_per_day < 100 then (0::nat)
             else if miles_per_day < 180 then 1
             else if miles_per_day \<le> 220 then 2
             else if miles_per_day \<le> 300 then 3
             else 4);
          efficiency_bonus_zone =
            (if 180 \<le> miles_per_day \<and> miles_per_day \<le> 220 then 1 else 0);
          efficiency_penalty_zone = (if miles_per_day > 300 then 1 else 0);
          spending_category =
            (if receipts_per_day < 75 then (0::nat)
             else if receipts_per_day \<le> 120 then 1
             else 2);
          very_low_receipts = (if total_receipts_amount < 50 then 1 else 0);
          optimal_receipt_range =
            (if 600 \<le> total_receipts_amount \<and> total_receipts_amount \<le> 800 then 1 else 0);
          high_spending_flag = (if total_receipts_amount > 1000 then 1 else 0);
          receipt_cents = py_mod (total_receipts_amount * 100) 100;
          receipt_ends_49_99 = (if receipt_cents \<in> set [49, 99] then 1 else 0);
          is_5_day_trip = (if trip_duration_days = 5 then 1 else 0);
          is_sweet_spot_duration =
            (if 4 \<le> trip_duration_days \<and> trip_duration_days \<le> 6 then 1 else 0);
          duration_penalty_zone =
            (if trip_duration_days < 2 \<or> trip_duration_days > 10 then 1 else 0);
          very_short_trip = (if trip_duration_days = 1 then 1 else 0);
          very_long_trip = (if trip_duration_days \<ge> 8 then 1 else 0);
          sweet_spot_combo =
            (if trip_duration_days = 5 \<and> miles_per_day \<ge> 180 \<and> receipts_per_day < 100
             then 1 else 0);
          vacation_penalty =
            (if trip_duration_days \<ge> 8 \<and> receipts_per_day > 120 then 1 else 0);
          high_mile_low_spend =
            (if miles_per_day > 200 \<and> receipts_per_day < 80 then 1 else 0);
          low_mile_high_spend =
            (if miles_per_day < 100 \<and> receipts_per_day > 100 then 1 else 0);
          efficiency_spending_interaction = miles_per_day * receipts_per_day;
          duration_efficiency_interaction = d * miles_per_day;
          duration_spending_interaction = d * receipts_per_day;
          short_high_efficiency =
            (if trip_duration_days \<le> 3 \<and> miles_per_day > 150 then 1 else 0);
          long_low_efficiency =
            (if trip_duration_days \<ge> 7 \<and> miles_per_day < 100 then 1 else 0);
          medium_balanced =
            (if 4 \<le> trip_duration_days \<and> trip_duration_days \<le> 6
                \<and> 100 \<le> miles_per_day \<and> miles_per_day \<le> 200
                \<and> 50 \<le> receipts_per_day \<and> receipts_per_day \<le> 150
             then 1 else 0)
      in
       if d + 1 \<le> 0 then Inl ValueError
       else if miles_traveled + 1 \<le> 0 then Inl ValueError
       else if total_receipts_amount + 1 \<le> 0 then Inl ValueError
       else
        let log_trip_duration = ln (d + 1);
            log_miles_traveled = ln (miles_traveled + 1);
            log_receipts = ln (total_receipts_amount + 1);
            trip_duration_squared = d ^ 2;
            miles_traveled_squared = miles_traveled ^ 2;
            receipts_squared = total_receipts_amount ^ 2;
            trip_duration_cubed = d ^ 3
        in
         if total_receipts_amount + 1 = 0 then Inl ZeroDivisionError
         else if d * (total_receipts_amount + 1) = 0 then Inl ZeroDivisionError
         else
          let total_efficiency = (miles_traveled * d) / (total_receipts_amount + 1);
              cost_per_mile =
                (if miles_traveled > 0 then total_receipts_amount / miles_traveled else 0);
              productivity_score = miles_traveled / (d * (total_receipts_amount + 1))
          in Inr [[
            d, miles_traveled, total_receipts_amount,
            receipts_per_day, receipts_per_mile, miles_per_day,
            efficiency_bonus_zone, efficiency_penalty_zone,
            very_low_receipts, optimal_receipt_range, high_spending_flag,
            receipt_ends_49_99,
            is_5_day_trip, is_sweet_spot_duration, duration_penalty_zone,
            very_short_trip, very_long_trip,
            sweet_spot_combo, vacation_penalty, high_mile_low_spend, low_mile_high_spend,
            efficiency_spending_interaction, duration_efficiency_interaction,
            duration_spending_interaction,
            short_high_efficiency, long_low_efficiency, medium_balanced,
            trip_duration_squared, miles_traveled_squared, receipts_squared,
            trip_duration_cubed,
            log_trip_duration, log_miles_traveled, log_receipts,
            total_efficiency, cost_per_mile, productivity_score ]])"

section \<open>Path selection\<close>

text \<open>
  \<open>determine_cluster\<close> of the base file. \<open>is_trained\<close> is set to \<open>False\<close> by the
  constructor and assigned nowhere else; the trained branch slices a Python list with a
  tuple, which raises a \<open>TypeError\<close>.
\<close>

definition determine_cluster :: "system \<Rightarrow> real list list \<Rightarrow> error + nat" where
  "determine_cluster self features =
    (if \<not> is_trained self then
       let trip_duration = features ! 0 ! 0;
           miles_traveled = features ! 0 ! 1;
           receipts = features ! 0 ! 2;
           miles_per_day = features ! 0 ! 5;
           receipts_per_day = features ! 0 ! 3
       in if trip_duration \<le> 1.5 \<and> miles_per_day > 500 then Inr 0
          else if trip_duration > 8 \<and> miles_per_day < 50 then Inr 1
          else if 3 \<le> trip_duration \<and> trip_duration \<le> 5 \<and> receipts > 1500 then Inr 2
          else if 4 \<le> trip_duration \<and> trip_duration \<le> 7 \<and> miles_per_day > 150
                  \<and> receipts < 800 then Inr 3
          else if trip_duration > 8 \<and> receipts > 1200 then Inr 4
          else Inr 5
     else Inl TypeError)"

section \<open>Base formula, adjustments and the scoring pipeline\<close>

text \<open>\<open>apply_rounding_bug\<close>, the same text in both files.\<close>

definition apply_rounding_bug :: "model_config \<Rightarrow> real \<Rightarrow> real \<Rightarrow> real" where
  "apply_rounding_bug cfg amount receipt_ends_49_99 =
    (if receipt_ends_49_99 \<noteq> 0 then
       let bug_bonus = bug_base_bonus cfg + (amount * bug_multiplier cfg)
       in amount + bug_bonus
     else amount)"

text \<open>
  The mileage tiers of \<open>calculate_base_reimbursement\<close>, the same in both files. The
  rate lists are read at constant positions below their constructed lengths.
\<close>

definition mileage_reimbursement :: "model_config \<Rightarrow> real \<Rightarrow> real" where
  "mileage_reimbursement cfg miles_traveled =
    (if miles_traveled \<le> 100 then miles_traveled * (mileage_rates cfg ! 0)
     else if miles_traveled \<le> 500 then
       100 * (mileage_rates cfg ! 0) + (miles_traveled - 100) * (mileage_rates cfg ! 1)
     else
       100 * (mileage_rates cfg ! 0) + 400 * (mileage_rates cfg ! 1)
         + (miles_traveled - 500) * (mileage_rates cfg ! 2))"

text \<open>The receipt tiers of the base file: flat dollar bases 15, 180 and 300.\<close>

definition receipt_reimbursement :: "model_config \<Rightarrow> real \<Rightarrow> real" where
  "receipt_reimbursement cfg total_receipts_amount =
    (if total_receipts_amount \<le> 50 then total_receipts_amount * (receipt_rates cfg ! 0)
     else if total_receipts_amount \<le> 500 then
       15 + (total_receipts_amount - 50) * (receipt_rates cfg ! 1)
     else if total_receipts_amount \<le> 1500 then
       15 + 180 + (total_receipts_amount - 500) * (receipt_rates cfg ! 2)
     else
       15 + 180 + 300 + (total_receipts_amount - 1500) * (receipt_rates cfg ! 3))"

definition calculate_base_reimbursement :: "model_config \<Rightarrow> int \<Rightarrow> real \<Rightarrow> real \<Rightarrow> real" where
  "calculate_base_reimbursement cfg trip_duration_days miles_traveled total_receipts_amount =
    (let per_diem = base_per_diem cfg * of_int trip_duration_days
     in per_diem + mileage_reimbursement cfg miles_traveled
          + receipt_reimbursement cfg total_receipts_amount)"

text \<open>
  \<open>apply_cluster_adjustments\<close>, the same in both files. The table is read at the
  selected path, so a path beyond the table raises an \<open>IndexError\<close>.
\<close>

definition apply_cluster_adjustments ::
    "model_config \<Rightarrow> real \<Rightarrow> nat \<Rightarrow> real list list \<Rightarrow> error + real" where
  "apply_cluster_adjustments cfg base_amount cluster features =
    (let vacation_penalty = features ! 0 ! 18
     in if cluster = 4 \<and> vacation_penalty \<noteq> 0 then
          Inr (base_amount * vacation_bonus_multiplier cfg)
        else if cluster = 4 then
          Inr (base_amount * vacation_base_multiplier cfg)
        else if cluster < length (cluster_multipliers cfg) then
          Inr (base_amount * (cluster_multipliers cfg ! cluster))
        else Inl IndexError)"

text \<open>\<open>apply_threshold_effects\<close>, the same in both files.\<close>

definition apply_threshold_effects :: "model_config \<Rightarrow> real \<Rightarrow> real list list \<Rightarrow> real" where
  "apply_threshold_effects cfg amount features =
    (let trip_duration = features ! 0 ! 0;
         miles_traveled = features ! 0 ! 1;
         total_receipts = features ! 0 ! 2;
         miles_per_day = features ! 0 ! 5;
         is_5_day_trip = features ! 0 ! 12;
         amount1 = (if is_5_day_trip \<noteq> 0 then amount * five_day_multiplier cfg else amount);
         amount2 = (if total_receipts > 660.54
                    then amount1 * receipt_threshold_multiplier cfg else amount1);
         amount3 = (if miles_per_day > 187.01
                    then amount2 * efficiency_threshold_multiplier cfg else amount2);
         amount4 = (if miles_traveled > 473.8
                    then amount3 * miles_threshold_multiplier cfg else amount3)
     in amount4)"

text \<open>
  The stages of \<open>calculate_reimbursement\<close> after path selection, the same in both
  files. The value bound to the name \<open>log_receipts\<close> is read at position 32 of the
  feature list, where \<open>engineer_features\<close> puts \<open>log_miles_traveled\<close>; \<open>log_receipts\<close>
  itself sits at position 33.
\<close>

definition score_from ::
    "model_config \<Rightarrow> real \<Rightarrow> nat \<Rightarrow> real list list \<Rightarrow> error + real" where
  "score_from cfg base_amount cluster features =
    (case apply_cluster_adjustments cfg base_amount cluster features of
       Inl e \<Rightarrow> Inl e
     | Inr adjusted_amount \<Rightarrow>
        let threshold_adjusted = apply_threshold_effects cfg adjusted_amount features;
            receipt_ends_49_99 = features ! 0 ! 11;
            final_amount = apply_rounding_bug cfg threshold_adjusted receipt_ends_49_99;
            duration_spending_interaction = features ! 0 ! 23;
            log_receipts = features ! 0 ! 32;
            interaction_bonus = duration_spending_interaction * interaction_coeff cfg;
            log_bonus = log_receipts * log_bonus_coeff cfg;
            final_amount = final_amount + (interaction_bonus + log_bonus);
            final_amount = max 50 (min final_amount 5000)
        in Inr (py_round2 final_amount))"

definition calculate_reimbursement :: "system \<Rightarrow> int \<Rightarrow> real \<Rightarrow> real \<Rightarrow> error + real" where
  "calculate_reimbursement self trip_duration_days miles_traveled total_receipts_amount =
    (case engineer_features trip_duration_days miles_traveled total_receipts_amount of
       Inl e \<Rightarrow> Inl e
     | Inr features \<Rightarrow>
        (case determine_cluster self features of
           Inl e \<Rightarrow> Inl e
         | Inr cluster \<Rightarrow>
            let base_amount = calculate_base_reimbursement (config self)
                  trip_duration_days miles_traveled total_receipts_amount
            in score_from (config self) base_amount cluster features))"



section \<open>The optimized variant\<close>

text \<open>
  \<open>engineer_features\<close> of \<open>calculate_reimbursement_optimized.py\<close>: the two unused
  category variables are gone and the cents are rounded before the comparison.
\<close>

definition engineer_features_optimized :: "int \<Rightarrow> real \<Rightarrow> real \<Rightarrow> error + real list list" where
  "engineer_features_optimized trip_duration_days miles_traveled total_receipts_amount =
    (if trip_duration_days = 0 then Inl ZeroDivisionError
     else
      let d = real_of_int trip_duration_days;
          receipts_per_day = total_receipts_amount / d;
          receipts_per_mile =
            (if miles_traveled > 0 then total_receipts_amount / miles_traveled else 0);
          miles_per_day = miles_traveled / d;
          efficiency_bonus_zone =
            (if 180 \<le> miles_per_day \<and> miles_per_day \<le> 220 then 1 else 0);
          efficiency_penalty_zone = (if miles_per_day > 300 then 1 else 0);
          very_low_receipts = (if total_receipts_amount < 50 then 1 else 0);
          optimal_receipt_range =
            (if 600 \<le> total_receipts_amount \<and> total_receipts_amount \<le> 800 then 1 else 0);
          high_spending_flag = (if total_receipts_amount > 1000 then 1 else 0);
          receipt_cents = real_of_int (py_round (py_mod (total_receipts_amount * 100) 100));
          receipt_ends_49_99 = (if receipt_cents \<in> set [49, 99] then 1 else 0);
          is_5_day_trip = (if trip_duration_days = 5 then 1 else 0);
          is_sweet_spot_duration =
            (if 4 \<le> trip_duration_days \<and> trip_duration_days \<le> 6 then 1 else 0);
          duration_penalty_zone =
            (if trip_duration_days < 2 \<or> trip_duration_days > 10 then 1 else 0);
          very_short_trip = (if trip_duration_days = 1 then 1 else 0);
          very_long_trip = (if trip_duration_days \<ge> 8 then 1 else 0);
          sweet_spot_combo =
            (if trip_duration_days = 5 \<and> miles_per_day \<ge> 180 \<and> receipts_per_day < 100
             then 1 else 0);
          vacation_penalty =
            (if trip_duration_days \<ge> 8 \<and> receipts_per_day > 120 then 1 else 0);
          high_mile_low_spend =
            (if miles_per_day > 200 \<and> receipts_per_day < 80 then 1 else 0);
          low_mile_high_spend =
            (if miles_per_day < 100 \<and> receipts_per_day > 100 then 1 else 0);
          efficiency_spending_interaction = miles_per_day * receipts_per_day;
          duration_efficiency_interaction = d * miles_per_day;
          duration_spending_interaction = d * receipts_per_day;
          short_high_efficiency =
            (if trip_duration_days \<le> 3 \<and> miles_per_day > 150 then 1 else 0);
          long_low_efficiency =
            (if trip_duration_days \<ge> 7 \<and> miles_per_day < 100 then 1 else 0);
          medium_balanced =
            (if 4 \<le> trip_duration_days \<and> trip_duration_days \<le> 6
                \<and> 100 \<le> miles_per_day \<and> miles_per_day \<le> 200
                \<and> 50 \<le> receipts_per_day \<and> receipts_per_day \<le> 150
             then 1 else 0)
      in
       if d + 1 \<le> 0 then Inl ValueError
       else if miles_traveled + 1 \<le> 0 then Inl ValueError
       else if total_receipts_amount + 1 \<le> 0 then Inl ValueError
       else
        let log_trip_duration = ln (d + 1);
            log_miles_traveled = ln (miles_traveled + 1);
            log_receipts = ln (total_receipts_amount + 1);
            trip_duration_squared = d ^ 2;
            miles_traveled_squared = miles_traveled ^ 2;
            receipts_squared = total_receipts_amount ^ 2;
            trip_duration_cubed = d ^ 3
        in
         if total_receipts_amount + 1 = 0 then Inl ZeroDivisionError
         else if d * (total_receipts_amount + 1) = 0 then Inl ZeroDivisionError
         else
          let total_efficiency = (miles_traveled * d) / (total_receipts_amount + 1);
              cost_per_mile =
                (if miles_traveled > 0 then total_receipts_amount / miles_traveled else 0);
              productivity_score = miles_traveled / (d * (total_receipts_amount + 1))
          in Inr [[
            d, miles_traveled, total_receipts_amount,
            receipts_per_day, receipts_per_mile, miles_per_day,
            efficiency_bonus_zone, efficiency_penalty_zone,
            very_low_receipts, optimal_receipt_range, high_spending_flag,
            receipt_ends_49_99,
            is_5_day_trip, is_sweet_spot_duration, duration_penalty_zone,
            very_short_trip, very_long_trip,
            sweet_spot_combo, vacation_penalty, high_mile_low_spend, low_mile_high_spend,
            efficiency_spending_interaction, duration_efficiency_interaction,
            duration_spending_interaction,
            short_high_efficiency, long_low_efficiency, medium_balanced,
            trip_duration_squared, miles_traveled_squared, receipts_squared,
            trip_duration_cubed,
            log_trip_duration, log_miles_traveled, log_receipts,
            total_efficiency, cost_per_mile, productivity_score ]])"

text \<open>\<open>determine_cluster\<close> of the optimized file: the rule table alone.\<close>

definition determine_cluster_optimized :: "real list list \<Rightarrow> nat" where
  "determine_cluster_optimized features =
    (let trip_duration = features ! 0 ! 0;
         miles_traveled = features ! 0 ! 1;
         receipts = features ! 0 ! 2;
         miles_per_day = features ! 0 ! 5;
         receipts_per_day = features ! 0 ! 3
     in if trip_duration \<le> 1.5 \<and> miles_per_day > 500 then 0
        else if trip_duration > 8 \<and> miles_per_day < 50 then 1
        else if 3 \<le> trip_duration \<and> trip_duration \<le> 5 \<and> receipts > 1500 then 2
        else if 4 \<le> trip_duration \<and> trip_duration \<le> 7 \<and> miles_per_day > 150
                \<and> receipts < 800 then 3
        else if trip_duration > 8 \<and> receipts > 1200 then 4
        else 5)"

text \<open>The receipt tiers of the optimized file: each base continues the rate below it.\<close>

definition receipt_reimbursement_optimized :: "model_config \<Rightarrow> real \<Rightarrow> real" where
  "receipt_reimbursement_optimized cfg total_receipts_amount =
    (if total_receipts_amount \<le> 50 then total_receipts_amount * (receipt_rates cfg ! 0)
     else if total_receipts_amount \<le> 500 then
       50 * (receipt_rates cfg ! 0) + (total_receipts_amount - 50) * (receipt_rates cfg ! 1)
     else if total_receipts_amount \<le> 1500 then
       50 * (receipt_rates cfg ! 0) + 450 * (receipt_rates cfg ! 1)
         + (total_receipts_amount - 500) * (receipt_rates cfg ! 2)
     else
       50 * (receipt_rates cfg ! 0) + 450 * (receipt_rates cfg ! 1)
         + 1000 * (receipt_rates cfg ! 2)
         + (total_receipts_amount - 1500) * (receipt_rates cfg ! 3))"

definition calculate_base_reimbursement_optimized ::
    "model_config \<Rightarrow> int \<Rightarrow> real \<Rightarrow> real \<Rightarrow> real" where
  "calculate_base_reimbursement_optimized cfg trip_duration_days miles_traveled
      total_receipts_amount =
    (let per_diem = base_per_diem cfg * of_int trip_duration_days
     in per_diem + mileage_reimbursement cfg miles_traveled
          + receipt_reimbursement_optimized cfg total_receipts_amount)"


section \<open>The calibrator\<close>

text \<open>
  \<open>evaluate_config\<close> of \<open>train_parameters.py\<close>, which imports the base scorer. A record
  is \<open>[duration, miles, receipts]\<close>; \<open>zip\<close> stops at the shorter list; any exception of
  the scorer appends 1000.0; \<open>statistics.mean\<close> raises on an empty list.
\<close>

type_synonym record_input = "int \<times> real \<times> real"

definition record_error :: "system \<Rightarrow> record_input \<times> real \<Rightarrow> real" where
  "record_error sys it =
    (case it of ((d, m, r), target) \<Rightarrow>
       (case calculate_reimbursement sys d m r of
          Inr prediction \<Rightarrow> \<bar>prediction - target\<bar>
        | Inl e \<Rightarrow> 1000))"

definition mean :: "real list \<Rightarrow> error + real" where
  "mean xs = (if xs = [] then Inl StatisticsError else Inr (sum_list xs / of_nat (length xs)))"

text \<open>The list \<open>errors\<close> that the loop of \<open>evaluate_config\<close> builds, one entry per record.\<close>

definition record_errors ::
    "model_config \<Rightarrow> record_input list \<Rightarrow> real list \<Rightarrow> real list" where
  "record_errors cfg inputs targets =
    (let sys = LegacyReimbursementSystem\<lparr> config := cfg \<rparr>
     in map (record_error sys) (zip inputs targets))"

definition evaluate_config ::
    "model_config \<Rightarrow> record_input list \<Rightarrow> real list \<Rightarrow> error + real" where
  "evaluate_config cfg inputs targets =
    (let errors = record_errors cfg inputs targets
     in mean errors)"

text \<open>
  The sweep of \<open>optimize_parameters\<close>. \<open>param_ranges\<close> is a dictionary, read in insertion
  order; \<open>itertools.product\<close> varies the last range fastest.
\<close>

type_synonym params = "real \<times> real \<times> real \<times> real \<times> real"



text \<open>The test configuration of one grid point: a fresh \<open>ModelConfig()\<close>, five fields set.\<close>

definition test_config :: "params \<Rightarrow> model_config" where
  "test_config ps =
    (case ps of (p0, p1, p2, p3, p4) \<Rightarrow>
       ModelConfig\<lparr>
         cluster_multipliers := (cluster_multipliers ModelConfig)[3 := p0],
         efficiency_threshold_multiplier := p1,
         log_bonus_coeff := p2,
         base_per_diem := p3,
         mileage_rates := (mileage_rates ModelConfig)[2 := p4] \<rparr>)"

text \<open>\<open>best_error\<close> starts at \<open>float('inf')\<close>, \<open>best_config\<close> and \<open>best_params\<close> at \<open>None\<close>.\<close>

datatype bound = Finite real | Infinity

fun less_bound :: "real \<Rightarrow> bound \<Rightarrow> bool" where
  "less_bound e Infinity = True"
| "less_bound e (Finite b) = (e < b)"

record sweep_state =
  best_error :: bound
  best_config :: "model_config option"
  best_params :: "params option"

definition sweep_init :: sweep_state where
  "sweep_init = \<lparr> best_error = Infinity, best_config = None, best_params = None \<rparr>"

fun sweep :: "record_input list \<Rightarrow> real list \<Rightarrow> params list \<Rightarrow> sweep_state
    \<Rightarrow> error + sweep_state" where
  "sweep inputs targets [] st = Inr st"
| "sweep inputs targets (ps # rest) st =
    (let cfg = test_config ps
     in case evaluate_config cfg inputs targets of
          Inl e \<Rightarrow> Inl e
        | Inr err \<Rightarrow>
            sweep inputs targets rest
              (if less_bound err (best_error st)
               then \<lparr> best_error = Finite err, best_config = Some cfg, best_params = Some ps \<rparr>
               else st))"


text \<open>
  The first two stages of \<open>calculate_reimbursement\<close> on their own: the path the scorer
  selects for a trip.
\<close>

definition selected_path :: "system \<Rightarrow> int \<Rightarrow> real \<Rightarrow> real \<Rightarrow> error + nat" where
  "selected_path self trip_duration_days miles_traveled total_receipts_amount =
    (case engineer_features trip_duration_days miles_traveled total_receipts_amount of
       Inl e \<Rightarrow> Inl e
     | Inr features \<Rightarrow> determine_cluster self features)"

definition selected_path_optimized :: "int \<Rightarrow> real \<Rightarrow> real \<Rightarrow> error + nat" where
  "selected_path_optimized trip_duration_days miles_traveled total_receipts_amount =
    (case engineer_features_optimized trip_duration_days miles_traveled
            total_receipts_amount of
       Inl e \<Rightarrow> Inl e
     | Inr features \<Rightarrow> Inr (determine_cluster_optimized features))"

section \<open>The specification's wording, for comparison\<close>

text \<open>
  The path adjustment as the specification words it: the special case sits at path 3.
  It is compared with \<open>apply_cluster_adjustments\<close> below and used nowhere else.
\<close>

definition path_adjustment_as_specified ::
    "model_config \<Rightarrow> real \<Rightarrow> nat \<Rightarrow> real list list \<Rightarrow> real" where
  "path_adjustment_as_specified cfg base_amount path features =
    (let vacation = features ! 0 ! 18
     in if path = 3 \<and> vacation \<noteq> 0 then base_amount * vacation_bonus_multiplier cfg
        else if path = 3 then base_amount * vacation_base_multiplier cfg
        else base_amount * (cluster_multipliers cfg ! path))"




section \<open>Reading the feature vector\<close>

lemma engineer_features_defined:
  "(\<exists>f. engineer_features d m r = Inr f) \<longleftrightarrow>
     d \<noteq> 0 \<and> 0 < real_of_int d + 1 \<and> 0 < m + 1 \<and> 0 < r + 1"
  by (cases "d = 0"; cases "real_of_int d + 1 \<le> 0"; cases "m + 1 \<le> 0"; cases "r + 1 \<le> 0")
     (simp_all add: engineer_features_def Let_def)

lemma engineer_features_read:
  assumes "engineer_features d m r = Inr f"
  shows "f ! 0 ! 0 = real_of_int d"
    and "f ! 0 ! 1 = m"
    and "f ! 0 ! 2 = r"
    and "f ! 0 ! 3 = r / real_of_int d"
    and "f ! 0 ! 5 = m / real_of_int d"
    and "f ! 0 ! 11 = (if py_mod (r * 100) 100 \<in> set [49, 99] then 1 else 0)"
    and "f ! 0 ! 12 = (if d = 5 then 1 else 0)"
    and "f ! 0 ! 18 = (if d \<ge> 8 \<and> r / real_of_int d > 120 then 1 else 0)"
    and "f ! 0 ! 23 = real_of_int d * (r / real_of_int d)"
    and "f ! 0 ! 32 = ln (m + 1)"
proof -
  from assms have ok: "d \<noteq> 0" "\<not> real_of_int d + 1 \<le> 0" "\<not> m + 1 \<le> 0" "\<not> r + 1 \<le> 0"
    using engineer_features_defined [of d m r] by auto
  from ok have nz: "r + 1 \<noteq> 0" "real_of_int d * (r + 1) \<noteq> 0" by auto
  note given = assms ok nz
  show "f ! 0 ! 0 = real_of_int d"
    using given by (auto simp add: engineer_features_def Let_def)
  show "f ! 0 ! 1 = m"
    using given by (auto simp add: engineer_features_def Let_def)
  show "f ! 0 ! 2 = r"
    using given by (auto simp add: engineer_features_def Let_def)
  show "f ! 0 ! 3 = r / real_of_int d"
    using given by (auto simp add: engineer_features_def Let_def)
  show "f ! 0 ! 5 = m / real_of_int d"
    using given by (auto simp add: engineer_features_def Let_def)
  show "f ! 0 ! 11 = (if py_mod (r * 100) 100 \<in> set [49, 99] then 1 else 0)"
    using given by (auto simp add: engineer_features_def Let_def)
  show "f ! 0 ! 12 = (if d = 5 then 1 else 0)"
    using given by (auto simp add: engineer_features_def Let_def)
  show "f ! 0 ! 18 = (if d \<ge> 8 \<and> r / real_of_int d > 120 then 1 else 0)"
    using given by (auto simp add: engineer_features_def Let_def)
  show "f ! 0 ! 23 = real_of_int d * (r / real_of_int d)"
    using given by (auto simp add: engineer_features_def Let_def)
  show "f ! 0 ! 32 = ln (m + 1)"
    using given by (auto simp add: engineer_features_def Let_def)
qed

lemma engineer_features_optimized_defined:
  "(\<exists>f. engineer_features_optimized d m r = Inr f) \<longleftrightarrow>
     d \<noteq> 0 \<and> 0 < real_of_int d + 1 \<and> 0 < m + 1 \<and> 0 < r + 1"
  by (cases "d = 0"; cases "real_of_int d + 1 \<le> 0"; cases "m + 1 \<le> 0"; cases "r + 1 \<le> 0")
     (simp_all add: engineer_features_optimized_def Let_def)

lemma engineer_features_optimized_read:
  assumes "engineer_features_optimized d m r = Inr f"
  shows "f ! 0 ! 0 = real_of_int d"
    and "f ! 0 ! 1 = m"
    and "f ! 0 ! 2 = r"
    and "f ! 0 ! 3 = r / real_of_int d"
    and "f ! 0 ! 5 = m / real_of_int d"
    and "f ! 0 ! 11 =
          (if real_of_int (py_round (py_mod (r * 100) 100)) \<in> set [49, 99] then 1 else 0)"
    and "f ! 0 ! 12 = (if d = 5 then 1 else 0)"
    and "f ! 0 ! 18 = (if d \<ge> 8 \<and> r / real_of_int d > 120 then 1 else 0)"
    and "f ! 0 ! 23 = real_of_int d * (r / real_of_int d)"
    and "f ! 0 ! 32 = ln (m + 1)"
proof -
  from assms have ok: "d \<noteq> 0" "\<not> real_of_int d + 1 \<le> 0" "\<not> m + 1 \<le> 0" "\<not> r + 1 \<le> 0"
    using engineer_features_optimized_defined [of d m r] by auto
  from ok have nz: "r + 1 \<noteq> 0" "real_of_int d * (r + 1) \<noteq> 0" by auto
  note given = assms ok nz
  show "f ! 0 ! 0 = real_of_int d"
    using given by (auto simp add: engineer_features_optimized_def Let_def)
  show "f ! 0 ! 1 = m"
    using given by (auto simp add: engineer_features_optimized_def Let_def)
  show "f ! 0 ! 2 = r"
    using given by (auto simp add: engineer_features_optimized_def Let_def)
  show "f ! 0 ! 3 = r / real_of_int d"
    using given by (auto simp add: engineer_features_optimized_def Let_def)
  show "f ! 0 ! 5 = m / real_of_int d"
    using given by (auto simp add: engineer_features_optimized_def Let_def)
  show "f ! 0 ! 11 =
          (if real_of_int (py_round (py_mod (r * 100) 100)) \<in> set [49, 99] then 1 else 0)"
    using given by (auto simp add: engineer_features_optimized_def Let_def)
  show "f ! 0 ! 12 = (if d = 5 then 1 else 0)"
    using given by (auto simp add: engineer_features_optimized_def Let_def)
  show "f ! 0 ! 18 = (if d \<ge> 8 \<and> r / real_of_int d > 120 then 1 else 0)"
    using given by (auto simp add: engineer_features_optimized_def Let_def)
  show "f ! 0 ! 23 = real_of_int d * (r / real_of_int d)"
    using given by (auto simp add: engineer_features_optimized_def Let_def)
  show "f ! 0 ! 32 = ln (m + 1)"
    using given by (auto simp add: engineer_features_optimized_def Let_def)
qed

lemma determine_cluster_rules:
  assumes "engineer_features d m r = Inr f"
  shows "determine_cluster LegacyReimbursementSystem f =
          Inr (if real_of_int d \<le> 1.5 \<and> m / real_of_int d > 500 then 0
               else if real_of_int d > 8 \<and> m / real_of_int d < 50 then 1
               else if 3 \<le> real_of_int d \<and> real_of_int d \<le> 5 \<and> r > 1500 then 2
               else if 4 \<le> real_of_int d \<and> real_of_int d \<le> 7 \<and> m / real_of_int d > 150
                       \<and> r < 800 then 3
               else if real_of_int d > 8 \<and> r > 1200 then 4
               else 5)"
  by (simp add: determine_cluster_def LegacyReimbursementSystem_def Let_def
        engineer_features_read [OF assms])

lemma determine_cluster_optimized_rules:
  assumes "engineer_features_optimized d m r = Inr f"
  shows "determine_cluster_optimized f =
          (if real_of_int d \<le> 1.5 \<and> m / real_of_int d > 500 then 0
           else if real_of_int d > 8 \<and> m / real_of_int d < 50 then 1
           else if 3 \<le> real_of_int d \<and> real_of_int d \<le> 5 \<and> r > 1500 then 2
           else if 4 \<le> real_of_int d \<and> real_of_int d \<le> 7 \<and> m / real_of_int d > 150
                   \<and> r < 800 then 3
           else if real_of_int d > 8 \<and> r > 1200 then 4
           else 5)"
  by (simp add: determine_cluster_optimized_def Let_def
        engineer_features_optimized_read [OF assms])

lemma determine_cluster_range:
  assumes "engineer_features d m r = Inr f"
    and "determine_cluster LegacyReimbursementSystem f = Inr c"
  shows "c < 6"
  using assms(2) unfolding determine_cluster_rules [OF assms(1)]
  by (auto split: if_splits)

lemma determine_cluster_optimized_range:
  assumes "engineer_features_optimized d m r = Inr f"
  shows "determine_cluster_optimized f < 6"
  unfolding determine_cluster_optimized_rules [OF assms] by simp


lemma calculate_reimbursement_stages:
  assumes "engineer_features d m r = Inr f" and "determine_cluster self f = Inr c"
  shows "calculate_reimbursement self d m r =
           score_from (config self) (calculate_base_reimbursement (config self) d m r) c f"
  by (simp add: calculate_reimbursement_def assms)


section \<open>Path selection on the fixture\<close>

text \<open>
  C2 (amended): for duration 10, miles 300 and receipts 1500.00 the rule table, read
  from the top with the first match winning, selects path 1 in both files: the second
  row (duration above 8, miles per day 30 below 50) matches before the fifth.
\<close>

theorem path_of_10_300_1500_is_1:
  "selected_path LegacyReimbursementSystem 10 300 1500 = Inr 1
   \<and> selected_path_optimized 10 300 1500 = Inr 1"
proof -
  obtain f where f: "engineer_features 10 300 1500 = Inr f"
    using engineer_features_defined [of 10 300 1500] by auto
  obtain g where g: "engineer_features_optimized 10 300 1500 = Inr g"
    using engineer_features_optimized_defined [of 10 300 1500] by auto
  have "determine_cluster LegacyReimbursementSystem f = Inr 1"
    by (simp add: determine_cluster_rules [OF f])
  moreover have "determine_cluster_optimized g = 1"
    by (simp add: determine_cluster_optimized_rules [OF g])
  ultimately show ?thesis
    by (simp add: selected_path_def selected_path_optimized_def f g)
qed


text \<open>C2 as stated: the same trip is not given path 4.\<close>

theorem path_of_10_300_1500_is_not_4:
  "selected_path LegacyReimbursementSystem 10 300 1500 \<noteq> Inr 4
   \<and> selected_path_optimized 10 300 1500 \<noteq> Inr 4"
proof -
  obtain f where f: "engineer_features 10 300 1500 = Inr f"
    using engineer_features_defined [of 10 300 1500] by auto
  obtain g where g: "engineer_features_optimized 10 300 1500 = Inr g"
    using engineer_features_optimized_defined [of 10 300 1500] by auto
  have "determine_cluster LegacyReimbursementSystem f = Inr 1"
    by (simp add: determine_cluster_rules [OF f])
  moreover have "determine_cluster_optimized g = 1"
    by (simp add: determine_cluster_optimized_rules [OF g])
  ultimately show ?thesis
    by (simp add: selected_path_def selected_path_optimized_def f g)
qed

section \<open>Path adjustment\<close>

text \<open>
  C3 (amended): the path adjustment multiplies the base amount by exactly one factor,
  and the special case sits at path 4, not 3: on path 4 with the vacation flag
  (duration at least 8 and receipts per day above 120) the factor is the vacation-bonus
  multiplier, on path 4 without the flag the vacation-base multiplier, and on every
  other path, path 3 included, that path's entry of the six-element table.
\<close>

theorem path_adjustment_special_case_is_path_4:
  assumes "length (cluster_multipliers cfg) = 6"
    and "engineer_features d m r = Inr f"
    and "determine_cluster LegacyReimbursementSystem f = Inr c"
    and "engineer_features_optimized d m r = Inr g"
    and "determine_cluster_optimized g = c'"
  shows "apply_cluster_adjustments cfg base_amount c f =
           Inr (base_amount *
             (if c = 4 \<and> (8 \<le> d \<and> r / real_of_int d > 120) then vacation_bonus_multiplier cfg
              else if c = 4 then vacation_base_multiplier cfg
              else cluster_multipliers cfg ! c))
       \<and> apply_cluster_adjustments cfg base_amount c' g =
           Inr (base_amount *
             (if c' = 4 \<and> (8 \<le> d \<and> r / real_of_int d > 120) then vacation_bonus_multiplier cfg
              else if c' = 4 then vacation_base_multiplier cfg
              else cluster_multipliers cfg ! c'))"
proof -
  have c: "c < 6"
    using determine_cluster_range [OF assms(2) assms(3)] .
  have c': "c' < 6"
    using determine_cluster_optimized_range [OF assms(4)] assms(5) by simp
  have "f ! 0 ! 18 = (if 8 \<le> d \<and> r / real_of_int d > 120 then 1 else 0)"
    by (rule engineer_features_read(8) [OF assms(2)])
  moreover have "g ! 0 ! 18 = (if 8 \<le> d \<and> r / real_of_int d > 120 then 1 else 0)"
    by (rule engineer_features_optimized_read(8) [OF assms(4)])
  ultimately show ?thesis
    using c c' assms(1) by (simp add: apply_cluster_adjustments_def Let_def)
qed

text \<open>The trip of 5 days, 1000 miles and 100.00 in receipts is on path 3.\<close>

theorem path_adjustment_special_case_is_path_4_witness:
  "length (cluster_multipliers ModelConfig) = 6
   \<and> selected_path LegacyReimbursementSystem 5 1000 100 = Inr 3
   \<and> selected_path_optimized 5 1000 100 = Inr 3
   \<and> apply_cluster_adjustments ModelConfig 100 3 (projr (engineer_features 5 1000 100))
       = Inr (100 * (cluster_multipliers ModelConfig ! 3))
   \<and> apply_cluster_adjustments ModelConfig 100 3
         (projr (engineer_features_optimized 5 1000 100))
       = Inr (100 * (cluster_multipliers ModelConfig ! 3))"
proof -
  obtain f where f: "engineer_features 5 1000 100 = Inr f"
    using engineer_features_defined [of 5 1000 100] by auto
  obtain g where g: "engineer_features_optimized 5 1000 100 = Inr g"
    using engineer_features_optimized_defined [of 5 1000 100] by auto
  have len: "length (cluster_multipliers ModelConfig) = 6"
    by (simp add: ModelConfig_def)
  have cf: "determine_cluster LegacyReimbursementSystem f = Inr 3"
    by (simp add: determine_cluster_rules [OF f])
  have cg: "determine_cluster_optimized g = 3"
    by (simp add: determine_cluster_optimized_rules [OF g])
  from path_adjustment_special_case_is_path_4 [OF len f cf g cg, of 100]
  show ?thesis
    using len by (simp add: selected_path_def selected_path_optimized_def f g cf cg)
qed

text \<open>
  C3 as stated: on that trip the code multiplies 100 by the table entry 1.19116, where
  the wording of the specification gives the vacation-base multiplier 1.07235.
\<close>

theorem path_3_is_not_special_cased:
  "selected_path LegacyReimbursementSystem 5 1000 100 = Inr 3
   \<and> apply_cluster_adjustments ModelConfig 100 3 (projr (engineer_features 5 1000 100))
       = Inr 119.116
   \<and> path_adjustment_as_specified ModelConfig 100 3 (projr (engineer_features 5 1000 100))
       = 107.235"
proof -
  obtain f where f: "engineer_features 5 1000 100 = Inr f"
    using engineer_features_defined [of 5 1000 100] by auto
  have cf: "determine_cluster LegacyReimbursementSystem f = Inr 3"
    by (simp add: determine_cluster_rules [OF f])
  have v: "f ! 0 ! 18 = 0"
    by (simp add: engineer_features_read(8) [OF f])
  have "apply_cluster_adjustments ModelConfig 100 3 f = Inr 119.116"
    using v by (simp add: apply_cluster_adjustments_def ModelConfig_def Let_def)
  moreover have "path_adjustment_as_specified ModelConfig 100 3 f = 107.235"
    using v by (simp add: path_adjustment_as_specified_def ModelConfig_def Let_def)
  ultimately show ?thesis
    by (simp add: selected_path_def f cf)
qed

section \<open>Threshold corrections\<close>



section \<open>Receipt tiers of the two files\<close>

text \<open>
  C9: the two receipt-tier formulas disagree for some receipts above 50 (at 100.00),
  whether both read the rates of the base file, both the rates of the optimized file,
  or each the rates of its own file.
\<close>

theorem receipt_tier_anchoring_differs:
  "\<exists>r. 50 < r
     \<and> receipt_reimbursement ModelConfig r \<noteq> receipt_reimbursement_optimized ModelConfig r
     \<and> receipt_reimbursement ModelConfig_optimized r
         \<noteq> receipt_reimbursement_optimized ModelConfig_optimized r
     \<and> receipt_reimbursement ModelConfig r
         \<noteq> receipt_reimbursement_optimized ModelConfig_optimized r
     \<and> (\<forall>d m. calculate_base_reimbursement ModelConfig d m r
           \<noteq> calculate_base_reimbursement_optimized ModelConfig d m r)"
proof -
  have a: "receipt_reimbursement ModelConfig 100 = 30.227"
    by (simp add: receipt_reimbursement_def ModelConfig_def)
  have b: "receipt_reimbursement_optimized ModelConfig 100 = 35.226"
    by (simp add: receipt_reimbursement_optimized_def ModelConfig_def)
  have c: "receipt_reimbursement ModelConfig_optimized 100 = 30.2271033285400"
    by (simp add: receipt_reimbursement_def ModelConfig_optimized_def)
  have d: "receipt_reimbursement_optimized ModelConfig_optimized 100 = 35.2258906394004"
    by (simp add: receipt_reimbursement_optimized_def ModelConfig_optimized_def)
  have "(50::real) < 100" by simp
  moreover have "receipt_reimbursement ModelConfig 100
      \<noteq> receipt_reimbursement_optimized ModelConfig 100"
    by (simp add: a b)
  moreover have "receipt_reimbursement ModelConfig_optimized 100
      \<noteq> receipt_reimbursement_optimized ModelConfig_optimized 100"
    by (simp add: c d)
  moreover have "receipt_reimbursement ModelConfig 100
      \<noteq> receipt_reimbursement_optimized ModelConfig_optimized 100"
    by (simp add: a d)
  moreover have "calculate_base_reimbursement ModelConfig d m 100
      \<noteq> calculate_base_reimbursement_optimized ModelConfig d m 100" for d m
    by (simp add: calculate_base_reimbursement_def calculate_base_reimbursement_optimized_def
          a b)
  ultimately show ?thesis by blast
qed

section \<open>The vacation flag on path 4\<close>

text \<open>
  C10: a valid trip that the rule table sends to path 4 and that lasts at most 10 days
  has the vacation flag set, so the path adjustment takes the vacation-bonus branch;
  the vacation-base branch (path 4 with the flag clear) needs a duration of at least 11.
\<close>

theorem vacation_base_branch_needs_11_days:
  assumes "0 < d" and "0 \<le> m" and "0 \<le> r"
    and "engineer_features d m r = Inr f"
    and "determine_cluster LegacyReimbursementSystem f = Inr 4"
  shows "(d \<le> 10 \<longrightarrow> f ! 0 ! 18 = 1
            \<and> apply_cluster_adjustments cfg base_amount 4 f
                = Inr (base_amount * vacation_bonus_multiplier cfg))
       \<and> (f ! 0 ! 18 = 0 \<longrightarrow> 11 \<le> d)"
proof -
  have path: "real_of_int d > 8 \<and> r > 1200"
    using assms(5) unfolding determine_cluster_rules [OF assms(4)]
    by (simp split: if_splits)
  have flag: "f ! 0 ! 18 = (if 8 \<le> d \<and> r / real_of_int d > 120 then 1 else 0)"
    by (rule engineer_features_read(8) [OF assms(4)])
  have short: "f ! 0 ! 18 = 1" if "d \<le> 10"
  proof -
    from that have "real_of_int d \<le> 10" by simp
    with path assms(1) have "120 * real_of_int d < r" by simp
    with assms(1) have "120 < r / real_of_int d"
      by (simp add: pos_less_divide_eq)
    moreover from path have "8 \<le> d" by simp
    ultimately show ?thesis by (simp add: flag)
  qed
  have "apply_cluster_adjustments cfg base_amount 4 f
          = Inr (base_amount * vacation_bonus_multiplier cfg)" if "d \<le> 10"
    using short [OF that] by (simp add: apply_cluster_adjustments_def Let_def)
  moreover have "11 \<le> d" if "f ! 0 ! 18 = 0"
  proof (rule ccontr)
    assume "\<not> 11 \<le> d"
    then have "d \<le> 10" by simp
    from short [OF this] that show False by simp
  qed
  ultimately show ?thesis using short by blast
qed

text \<open>
  A 10-day trip on path 4 carries the flag; an 11-day trip on path 4 with receipts of
  1250.00 does not, and takes the vacation-base branch.
\<close>

theorem vacation_base_branch_needs_11_days_witness:
  "selected_path LegacyReimbursementSystem 10 600 1500 = Inr 4
   \<and> projr (engineer_features 10 600 1500) ! 0 ! 18 = 1
   \<and> apply_cluster_adjustments ModelConfig 100 4 (projr (engineer_features 10 600 1500))
       = Inr (100 * vacation_bonus_multiplier ModelConfig)
   \<and> selected_path LegacyReimbursementSystem 11 600 1250 = Inr 4
   \<and> projr (engineer_features 11 600 1250) ! 0 ! 18 = 0
   \<and> apply_cluster_adjustments ModelConfig 100 4 (projr (engineer_features 11 600 1250))
       = Inr (100 * vacation_base_multiplier ModelConfig)"
proof -
  obtain f where f: "engineer_features 10 600 1500 = Inr f"
    using engineer_features_defined [of 10 600 1500] by auto
  obtain g where g: "engineer_features 11 600 1250 = Inr g"
    using engineer_features_defined [of 11 600 1250] by auto
  have cf: "determine_cluster LegacyReimbursementSystem f = Inr 4"
    by (simp add: determine_cluster_rules [OF f])
  have cg: "determine_cluster LegacyReimbursementSystem g = Inr 4"
    by (simp add: determine_cluster_rules [OF g])
  have short: "f ! 0 ! 18 = 1
      \<and> apply_cluster_adjustments ModelConfig 100 4 f
          = Inr (100 * vacation_bonus_multiplier ModelConfig)"
    using vacation_base_branch_needs_11_days [OF _ _ _ f cf, of ModelConfig 100] by simp
  have gv: "g ! 0 ! 18 = 0"
    by (simp add: engineer_features_read(8) [OF g])
  then have "apply_cluster_adjustments ModelConfig 100 4 g
      = Inr (100 * vacation_base_multiplier ModelConfig)"
    by (simp add: apply_cluster_adjustments_def Let_def)
  with short gv show ?thesis
    by (simp add: selected_path_def f g cf cg)
qed

section \<open>Clamping and rounding\<close>







section \<open>Invalid input\<close>







section \<open>The cents that trigger the bonus\<close>

text \<open>
  What holds of the claim: the bonus is the base bonus plus the amount times the bug
  multiplier; the optimized file rounds the cents before comparing them with 49 and 99;
  receipts of 49.49 set the flag and receipts of 49.50 do not, in both files. The base
  file compares the cents as they are.
\<close>

lemma apply_rounding_bug_bonus:
  "apply_rounding_bug cfg amount flag =
     (if flag \<noteq> 0 then amount + (bug_base_bonus cfg + amount * bug_multiplier cfg)
      else amount)"
  by (simp add: apply_rounding_bug_def Let_def)

lemma bug_trigger_optimized_rounds:
  assumes "engineer_features_optimized d m r = Inr f"
  shows "f ! 0 ! 11 \<noteq> 0 \<longleftrightarrow>
           py_round (py_mod (r * 100) 100) = 49 \<or> py_round (py_mod (r * 100) 100) = 99"
  by (simp add: engineer_features_optimized_read(6) [OF assms])

lemma bug_trigger_base_unrounded:
  assumes "engineer_features d m r = Inr f"
  shows "f ! 0 ! 11 \<noteq> 0 \<longleftrightarrow> py_mod (r * 100) 100 = 49 \<or> py_mod (r * 100) 100 = 99"
  by (simp add: engineer_features_read(6) [OF assms])

lemma bug_trigger_fixtures:
  "projr (engineer_features 1 0 49.49) ! 0 ! 11 = 1
   \<and> projr (engineer_features 1 0 49.50) ! 0 ! 11 = 0
   \<and> projr (engineer_features_optimized 1 0 49.49) ! 0 ! 11 = 1
   \<and> projr (engineer_features_optimized 1 0 49.50) ! 0 ! 11 = 0"
proof -
  obtain f where f: "engineer_features 1 0 49.49 = Inr f"
    using engineer_features_defined [of 1 0 "49.49"] by auto
  obtain f' where f': "engineer_features 1 0 49.50 = Inr f'"
    using engineer_features_defined [of 1 0 "49.50"] by auto
  obtain g where g: "engineer_features_optimized 1 0 49.49 = Inr g"
    using engineer_features_optimized_defined [of 1 0 "49.49"] by auto
  obtain g' where g': "engineer_features_optimized 1 0 49.50 = Inr g'"
    using engineer_features_optimized_defined [of 1 0 "49.50"] by auto
  have "f ! 0 ! 11 = 1"
    using engineer_features_read(6) [OF f] by (simp add: py_mod_def)
  moreover have "f' ! 0 ! 11 = 0"
    using engineer_features_read(6) [OF f'] by (simp add: py_mod_def)
  moreover have "g ! 0 ! 11 = 1"
    using engineer_features_optimized_read(6) [OF g]
    by (simp add: py_mod_def py_round_def Let_def)
  moreover have "g' ! 0 ! 11 = 0"
    using engineer_features_optimized_read(6) [OF g']
    by (simp add: py_mod_def py_round_def Let_def)
  ultimately show ?thesis
    unfolding f f' g g' by simp
qed

text \<open>
  C4 at receipts of 49.494: the cents are 49.4 and round to 49, so the trigger as
  claimed fires, and the optimized file sets the flag. The base file compares 49.4
  itself with 49 and 99 and leaves the flag at 0, so no bonus is added.
\<close>

theorem base_file_compares_unrounded_cents:
  "py_mod (49.494 * 100) 100 = 49.4
   \<and> py_round (py_mod (49.494 * 100) 100) = 49
   \<and> projr (engineer_features 1 0 49.494) ! 0 ! 11 = 0
   \<and> projr (engineer_features_optimized 1 0 49.494) ! 0 ! 11 = 1"
proof -
  obtain f where f: "engineer_features 1 0 49.494 = Inr f"
    using engineer_features_defined [of 1 0 "49.494"] by auto
  obtain g where g: "engineer_features_optimized 1 0 49.494 = Inr g"
    using engineer_features_optimized_defined [of 1 0 "49.494"] by auto
  have "py_mod (49.494 * 100) 100 = 49.4"
    by (simp add: py_mod_def)
  moreover have "py_round (py_mod (49.494 * 100) 100) = 49"
    by (simp add: py_mod_def py_round_def Let_def)
  moreover have "f ! 0 ! 11 = 0"
    using engineer_features_read(6) [OF f] by (simp add: py_mod_def)
  moreover have "g ! 0 ! 11 = 1"
    using engineer_features_optimized_read(6) [OF g]
    by (simp add: py_mod_def py_round_def Let_def)
  ultimately show ?thesis
    unfolding f g by simp
qed

section \<open>The calibrator's sweep\<close>

lemma less_bound_trans: "e' < e \<Longrightarrow> less_bound e b \<Longrightarrow> less_bound e' b"
  by (cases b) simp_all

lemma less_bound_between: "less_bound e' b \<Longrightarrow> \<not> less_bound e b \<Longrightarrow> e' < e"
  by (cases b) simp_all

lemma sweep_Cons_Inr:
  assumes "sweep inputs targets (p # ps) st0 = Inr st"
  obtains e where "evaluate_config (test_config p) inputs targets = Inr e"
    and "sweep inputs targets ps
           (if less_bound e (best_error st0)
            then \<lparr> best_error = Finite e, best_config = Some (test_config p),
                   best_params = Some p \<rparr>
            else st0) = Inr st"
  using assms by (auto simp add: Let_def split: sum.splits)

lemma sweep_invariant:
  assumes "sweep inputs targets grid st0 = Inr st"
  shows "(st = st0
          \<and> (\<forall>q\<in>set grid. \<exists>e'. evaluate_config (test_config q) inputs targets = Inr e'
                \<and> \<not> less_bound e' (best_error st0)))
       \<or> (\<exists>i e. i < length grid
            \<and> evaluate_config (test_config (grid ! i)) inputs targets = Inr e
            \<and> st = \<lparr> best_error = Finite e, best_config = Some (test_config (grid ! i)),
                     best_params = Some (grid ! i) \<rparr>
            \<and> less_bound e (best_error st0)
            \<and> (\<forall>q\<in>set grid. \<exists>e'. evaluate_config (test_config q) inputs targets = Inr e'
                  \<and> e \<le> e')
            \<and> (\<forall>q\<in>set (take i grid).
                  \<exists>e'. evaluate_config (test_config q) inputs targets = Inr e' \<and> e < e'))"
  using assms
proof (induction grid arbitrary: st0)
  case Nil
  then show ?case by simp
next
  case (Cons p ps)
  let ?E = "\<lambda>q. evaluate_config (test_config q) inputs targets"
  from Cons.prems obtain e where e: "?E p = Inr e"
    and rest: "sweep inputs targets ps
           (if less_bound e (best_error st0)
            then \<lparr> best_error = Finite e, best_config = Some (test_config p),
                   best_params = Some p \<rparr>
            else st0) = Inr st"
    by (rule sweep_Cons_Inr)
  define st1 where "st1 =
      (if less_bound e (best_error st0)
       then \<lparr> best_error = Finite e, best_config = Some (test_config p),
              best_params = Some p \<rparr>
       else st0)"
  from rest have rest1: "sweep inputs targets ps st1 = Inr st" by (simp add: st1_def)
  from Cons.IH [OF rest1] consider
    (same) "st = st1"
      "\<forall>q\<in>set ps. \<exists>e'. ?E q = Inr e' \<and> \<not> less_bound e' (best_error st1)"
  | (later) i e2 where "i < length ps" "?E (ps ! i) = Inr e2"
      "st = \<lparr> best_error = Finite e2, best_config = Some (test_config (ps ! i)),
              best_params = Some (ps ! i) \<rparr>"
      "less_bound e2 (best_error st1)"
      "\<forall>q\<in>set ps. \<exists>e'. ?E q = Inr e' \<and> e2 \<le> e'"
      "\<forall>q\<in>set (take i ps). \<exists>e'. ?E q = Inr e' \<and> e2 < e'"
    by blast
  then show ?case
  proof cases
    case same
    show ?thesis
    proof (cases "less_bound e (best_error st0)")
      case True
      then have st: "st = \<lparr> best_error = Finite e, best_config = Some (test_config p),
          best_params = Some p \<rparr>"
        using same(1) by (simp add: st1_def)
      have "\<forall>q\<in>set ps. \<exists>e'. ?E q = Inr e' \<and> e \<le> e'"
        using same(2) True by (auto simp add: st1_def not_less)
      then have all: "\<forall>q\<in>set (p # ps). \<exists>e'. ?E q = Inr e' \<and> e \<le> e'"
        using e by simp
      have "0 < length (p # ps) \<and> ?E ((p # ps) ! 0) = Inr e
          \<and> st = \<lparr> best_error = Finite e,
                   best_config = Some (test_config ((p # ps) ! 0)),
                   best_params = Some ((p # ps) ! 0) \<rparr>
          \<and> less_bound e (best_error st0)
          \<and> (\<forall>q\<in>set (p # ps). \<exists>e'. ?E q = Inr e' \<and> e \<le> e')
          \<and> (\<forall>q\<in>set (take 0 (p # ps)). \<exists>e'. ?E q = Inr e' \<and> e < e')"
        using e st True all by simp
      then show ?thesis by blast
    next
      case False
      then have "st = st0" using same(1) by (simp add: st1_def)
      moreover have "\<forall>q\<in>set (p # ps). \<exists>e'. ?E q = Inr e' \<and> \<not> less_bound e' (best_error st0)"
        using same(2) False e by (simp add: st1_def)
      ultimately show ?thesis by blast
    qed
  next
    case later
    have lt: "e2 < e"
    proof (cases "less_bound e (best_error st0)")
      case True
      then show ?thesis using later(4) by (simp add: st1_def)
    next
      case False
      then have "less_bound e2 (best_error st0)" using later(4) by (simp add: st1_def)
      then show ?thesis using False by (rule less_bound_between)
    qed
    have lb: "less_bound e2 (best_error st0)"
    proof (cases "less_bound e (best_error st0)")
      case True
      with lt show ?thesis by (rule less_bound_trans)
    next
      case False
      then show ?thesis using later(4) by (simp add: st1_def)
    qed
    have "Suc i < length (p # ps) \<and> ?E ((p # ps) ! Suc i) = Inr e2
        \<and> st = \<lparr> best_error = Finite e2,
                 best_config = Some (test_config ((p # ps) ! Suc i)),
                 best_params = Some ((p # ps) ! Suc i) \<rparr>
        \<and> less_bound e2 (best_error st0)
        \<and> (\<forall>q\<in>set (p # ps). \<exists>e'. ?E q = Inr e' \<and> e2 \<le> e')
        \<and> (\<forall>q\<in>set (take (Suc i) (p # ps)). \<exists>e'. ?E q = Inr e' \<and> e2 < e')"
      using later e lt lb by simp
    then show ?thesis by blast
  qed
qed

lemma score_of_one_day_no_miles_no_receipts:
  assumes "cluster_multipliers cfg ! 5 = k" and "length (cluster_multipliers cfg) = 6"
    and "mileage_rates cfg ! 0 = a" and "receipt_rates cfg ! 0 = b"
  shows "calculate_reimbursement (LegacyReimbursementSystem\<lparr> config := cfg \<rparr>) 1 0 0
           = Inr (py_round2 (max 50 (min (base_per_diem cfg * k) 5000)))"
proof -
  obtain f where f: "engineer_features 1 0 0 = Inr f"
    using engineer_features_defined [of 1 0 0] by auto
  have c: "determine_cluster (LegacyReimbursementSystem\<lparr> config := cfg \<rparr>) f = Inr 5"
    using engineer_features_read [OF f]
    by (simp add: determine_cluster_def LegacyReimbursementSystem_def Let_def)
  have rd: "f ! 0 ! 0 = 1" "f ! 0 ! 1 = 0" "f ! 0 ! 2 = 0" "f ! 0 ! 5 = 0"
      "f ! 0 ! 12 = 0" "f ! 0 ! 11 = 0" "f ! 0 ! 23 = 0" "f ! 0 ! 32 = 0"
    using engineer_features_read [OF f] by (simp_all add: py_mod_def)
  have base: "calculate_base_reimbursement cfg 1 0 0 = base_per_diem cfg"
    by (simp add: calculate_base_reimbursement_def mileage_reimbursement_def
          receipt_reimbursement_def)
  have fin: "score_from cfg (base_per_diem cfg) 5 f
      = Inr (py_round2 (max 50 (min (base_per_diem cfg * k) 5000)))"
    using rd assms(1,2) by (simp add: score_from_def apply_cluster_adjustments_def
        apply_threshold_effects_def apply_rounding_bug_def Let_def)
  have cfg: "config (LegacyReimbursementSystem\<lparr> config := cfg \<rparr>) = cfg"
    by simp
  show ?thesis
    unfolding calculate_reimbursement_stages [OF f c] cfg base fin ..
qed

lemma evaluate_config_one_record:
  assumes "cluster_multipliers cfg ! 5 = k" and "length (cluster_multipliers cfg) = 6"
    and "mileage_rates cfg ! 0 = a" and "receipt_rates cfg ! 0 = b"
  shows "evaluate_config cfg [(1, 0, 0)] [t]
           = Inr \<bar>py_round2 (max 50 (min (base_per_diem cfg * k) 5000)) - t\<bar>"
  by (simp add: evaluate_config_def record_errors_def record_error_def mean_def Let_def
        score_of_one_day_no_miles_no_receipts [OF assms])

lemma evaluate_test_config_45:
  "evaluate_config (test_config (p0, p1, p2, 45, p4)) [(1, 0, 0)] [100] = Inr 45.37"
proof -
  have k: "cluster_multipliers (test_config (p0, p1, p2, 45, p4)) ! 5 = 1.21401"
    by (simp add: test_config_def ModelConfig_def)
  have l: "length (cluster_multipliers (test_config (p0, p1, p2, 45, p4))) = 6"
    by (simp add: test_config_def ModelConfig_def)
  have b: "base_per_diem (test_config (p0, p1, p2, 45, p4)) = 45"
    by (simp add: test_config_def)
  have r: "py_round2 (max 50 (min (45 * 1.21401) 5000)) = 54.63"
    by (simp add: py_round2_def py_round_def Let_def)
  show ?thesis
    unfolding evaluate_config_one_record [OF k l refl refl] b r by simp
qed







text \<open>
  C7: when the sweep over a grid with at least one point completes, the retained best
  error is the mean absolute error of the retained grid point, it is at most the error
  of every grid point evaluated, and every grid point enumerated before the retained
  one has a strictly larger error: among equal errors the earliest is kept.
\<close>

theorem sweep_keeps_first_minimum:
  assumes "sweep inputs targets grid sweep_init = Inr st" and "grid \<noteq> []"
  shows "\<exists>i e. i < length grid
           \<and> evaluate_config (test_config (grid ! i)) inputs targets = Inr e
           \<and> best_error st = Finite e
           \<and> best_params st = Some (grid ! i)
           \<and> best_config st = Some (test_config (grid ! i))
           \<and> (\<forall>q\<in>set grid. \<exists>e'. evaluate_config (test_config q) inputs targets = Inr e'
                 \<and> e \<le> e')
           \<and> (\<forall>q\<in>set (take i grid).
                 \<exists>e'. evaluate_config (test_config q) inputs targets = Inr e' \<and> e < e')"
proof -
  from sweep_invariant [OF assms(1)] consider
    (same) "st = sweep_init"
      "\<forall>q\<in>set grid. \<exists>e'. evaluate_config (test_config q) inputs targets = Inr e'
          \<and> \<not> less_bound e' (best_error sweep_init)"
  | (later) i e where "i < length grid"
      "evaluate_config (test_config (grid ! i)) inputs targets = Inr e"
      "st = \<lparr> best_error = Finite e, best_config = Some (test_config (grid ! i)),
              best_params = Some (grid ! i) \<rparr>"
      "\<forall>q\<in>set grid. \<exists>e'. evaluate_config (test_config q) inputs targets = Inr e' \<and> e \<le> e'"
      "\<forall>q\<in>set (take i grid).
          \<exists>e'. evaluate_config (test_config q) inputs targets = Inr e' \<and> e < e'"
    by blast
  then show ?thesis
  proof cases
    case same
    from assms(2) have "hd grid \<in> set grid" by simp
    with same(2) have "\<exists>e'. \<not> less_bound e' (best_error sweep_init)" by blast
    then show ?thesis by (simp add: sweep_init_def)
  next
    case later
    from later(3) have "best_error st = Finite e" "best_params st = Some (grid ! i)"
        "best_config st = Some (test_config (grid ! i))"
      by simp_all
    with later(1,2,4,5) show ?thesis by blast
  qed
qed

text \<open>
  Two grid points that tie on one record (the record never reads the fifth parameter):
  the sweep keeps the first.
\<close>

theorem sweep_keeps_first_minimum_witness:
  "sweep [(1, 0, 0)] [100] [(1.0, 1.02, 1.5, 45, 0.25), (1.0, 1.02, 1.5, 45, 0.30)] sweep_init
     = Inr \<lparr> best_error = Finite 45.37,
             best_config = Some (test_config (1.0, 1.02, 1.5, 45, 0.25)),
             best_params = Some (1.0, 1.02, 1.5, 45, 0.25) \<rparr>
   \<and> evaluate_config (test_config (1.0, 1.02, 1.5, 45, 0.25)) [(1, 0, 0)] [100] = Inr 45.37
   \<and> evaluate_config (test_config (1.0, 1.02, 1.5, 45, 0.30)) [(1, 0, 0)] [100] = Inr 45.37
   \<and> (\<exists>i e. i < length [(1.0, 1.02, 1.5, 45, 0.25) :: params, (1.0, 1.02, 1.5, 45, 0.30)]
         \<and> Finite 45.37 = Finite e
         \<and> Some ((1.0, 1.02, 1.5, 45, 0.25) :: params)
             = Some ([(1.0, 1.02, 1.5, 45, 0.25), (1.0, 1.02, 1.5, 45, 0.30)] ! i)
         \<and> (\<forall>q\<in>set (take i [(1.0, 1.02, 1.5, 45, 0.25) :: params,
                                 (1.0, 1.02, 1.5, 45, 0.30)]).
               \<exists>e'. evaluate_config (test_config q) [(1, 0, 0)] [100] = Inr e' \<and> e < e'))"
proof -
  let ?p = "(1.0, 1.02, 1.5, 45, 0.25) :: params"
  let ?q = "(1.0, 1.02, 1.5, 45, 0.30) :: params"
  let ?st = "\<lparr> best_error = Finite 45.37, best_config = Some (test_config ?p),
                best_params = Some ?p \<rparr>"
  have ep: "evaluate_config (test_config ?p) [(1, 0, 0)] [100] = Inr 45.37"
    by (rule evaluate_test_config_45)
  have eq: "evaluate_config (test_config ?q) [(1, 0, 0)] [100] = Inr 45.37"
    by (rule evaluate_test_config_45)
  have s: "sweep [(1, 0, 0)] [100] [?p, ?q] sweep_init = Inr ?st"
    unfolding sweep.simps Let_def ep eq by (simp add: sweep_init_def)
  have ne: "[?p, ?q] \<noteq> []" by simp
  have sel: "best_error ?st = Finite 45.37" "best_params ?st = Some ?p"
    by simp_all
  from sweep_keeps_first_minimum [OF s ne]
  have "\<exists>i e. i < length [?p, ?q] \<and> Finite 45.37 = Finite e
      \<and> Some ?p = Some ([?p, ?q] ! i)
      \<and> (\<forall>q\<in>set (take i [?p, ?q]).
            \<exists>e'. evaluate_config (test_config q) [(1, 0, 0)] [100] = Inr e' \<and> e < e')"
    unfolding sel by blast
  with s ep eq show ?thesis by blast
qed



end
